theory Spec2Isabelle
  imports Main
begin

section \<open>Data model of src/main.ts\<close>

text \<open>
  The stale bot of \<^verbatim>\<open>src/src/main.ts\<close>: \<^verbatim>\<open>run\<close> reads and validates the action's
  inputs and hands them to \<^verbatim>\<open>processIssues\<close>, which pages through the open issues
  and pull requests of a repository and, per item, posts a comment, adds or removes
  the stale label, or closes the item, while counting operations against a budget.

  JavaScript numbers that pass validation are integers and are modelled as \<open>int\<close>
  (exact below \<open>2^53\<close>); \<^verbatim>\<open>NaN\<close> is the value \<open>None\<close> of \<open>int option\<close> where it
  can occur, which is the result of \<^verbatim>\<open>parseInt\<close> only. Strings are \<open>string\<close>; the empty
  string is the only falsy one. A rejected promise or a thrown \<^verbatim>\<open>Error\<close> is the left
  summand of a sum. The calls to \<^verbatim>\<open>core.debug\<close> and \<^verbatim>\<open>core.warning\<close> only write to
  the log and are left out.
\<close>

datatype error = Error string

text \<open>\<^verbatim>\<open>Octokit.IssuesListForRepoResponseItem\<close>: the fields the program reads, and the labels.\<close>

record Issue =
  number :: int
  title :: string
  updated_at :: string
  pull_request :: "string option"
  labels :: "string list"

text \<open>An item of \<^verbatim>\<open>listComments\<close>; \<open>user_type\<close> is \<^verbatim>\<open>comment.user.type\<close>.\<close>

record Comment =
  user_type :: string
  body :: string
  created_at :: string

record Args =
  repoToken :: string
  DRY_RUN :: bool
  staleIssueMessage :: string
  stalePrMessage :: string
  daysBeforeStale :: int
  daysBeforeClose :: int
  staleIssueLabel :: string
  exemptIssueLabel :: string
  stalePrLabel :: string
  exemptPrLabel :: string
  operationsPerRun :: int

subsection \<open>The remote repository\<close>

text \<open>
  Every remote call the program issues, in the order it issues them, is recorded in
  a trace. \<open>ListForRepo page\<close> is \<^verbatim>\<open>client.issues.listForRepo\<close> (state open, 100 per
  page); \<open>GetDateOfLastAppliedStaleLabel n l\<close> stands for the event lookups of the helper
  of that name on issue \<open>n\<close> (the source notes that it may be more than one request);
  \<open>Update n s\<close> sets the state of issue \<open>n\<close> to \<open>s\<close>.
\<close>

datatype call =
    ListForRepo nat
  | GetDateOfLastAppliedStaleLabel int string
  | ListComments int string
  | CreateComment int string
  | AddLabels int "string list"
  | RemoveLabel int string
  | Update int string

fun isLookup :: "call \<Rightarrow> bool" where
  "isLookup (ListForRepo _) = True"
| "isLookup (GetDateOfLastAppliedStaleLabel _ _) = True"
| "isLookup (ListComments _ _) = True"
| "isLookup _ = False"

definition isMutation :: "call \<Rightarrow> bool" where
  "isMutation cl = (\<not> isLookup cl)"

text \<open>
  The client \<^verbatim>\<open>github.GitHub\<close> is a parameter. What it answers to a call may depend on
  every call made before (the first argument, the trace so far), so that a listing
  can see the effect of earlier mutations; \<open>Inl\<close> is a rejected request.
\<close>

record client =
  listForRepo :: "call list \<Rightarrow> nat \<Rightarrow> error + Issue list"
  listComments :: "call list \<Rightarrow> int \<Rightarrow> string \<Rightarrow> error + Comment list"
  createComment :: "call list \<Rightarrow> int \<Rightarrow> string \<Rightarrow> error + unit"
  addLabels :: "call list \<Rightarrow> int \<Rightarrow> string list \<Rightarrow> error + unit"
  removeLabel :: "call list \<Rightarrow> int \<Rightarrow> string \<Rightarrow> error + unit"
  update :: "call list \<Rightarrow> int \<Rightarrow> string \<Rightarrow> error + unit"

text \<open>
  The helpers imported from \<^verbatim>\<open>./utils\<close> are not among the sources and are parameters
  as well. \<open>getDateOfLastAppliedStaleLabel\<close> talks to the remote, so it takes the
  trace so far like the client's calls do.
\<close>

record utils =
  wasLastUpdatedBefore :: "Issue \<Rightarrow> int \<Rightarrow> bool"
  appliedLabelBefore :: "string \<Rightarrow> int \<Rightarrow> bool"
  isLabeled :: "Issue \<Rightarrow> string \<Rightarrow> bool"
  isTrue :: "string \<Rightarrow> bool"
  getDateOfLastAppliedStaleLabel :: "call list \<Rightarrow> Issue \<Rightarrow> string \<Rightarrow> error + string"

text \<open>
  Performing a remote call: the answer is computed from the trace before the call,
  and the call is appended to the trace whether or not it succeeds.
\<close>

definition remote :: "call \<Rightarrow> (call list \<Rightarrow> error + 'a) \<Rightarrow> call list \<Rightarrow> (error + 'a) \<times> call list" where
  "remote cl answer tr = (answer tr, tr @ [cl])"

section \<open>The action helpers\<close>

text \<open>Lines 144-161.\<close>

definition issueHasActivitySinceStaleLabelWasApplied ::
  "client \<Rightarrow> Issue \<Rightarrow> string \<Rightarrow> call list \<Rightarrow> (error + bool) \<times> call list" where
  "issueHasActivitySinceStaleLabelWasApplied c issue staleLabelAppliedData tr =
     (case remote (ListComments (number issue) staleLabelAppliedData)
             (\<lambda>h. listComments c h (number issue) staleLabelAppliedData) tr of
        (Inl e, tr1) \<Rightarrow> (Inl e, tr1)
      | (Inr comments, tr1) \<Rightarrow>
          (let filtered = filter (\<lambda>comment. user_type comment = ''User'') comments
           in (Inr (length filtered > 0), tr1)))"

text \<open>Lines 163-191. The result is the number of operations performed.\<close>

definition addStaleLabel ::
  "client \<Rightarrow> Issue \<Rightarrow> string \<Rightarrow> string \<Rightarrow> bool \<Rightarrow> call list \<Rightarrow> (error + int) \<times> call list" where
  "addStaleLabel c issue staleMessage staleLabel dryRun tr =
     (if \<not> dryRun then
        (case remote (CreateComment (number issue) staleMessage)
                (\<lambda>h. createComment c h (number issue) staleMessage) tr of
           (Inl e, tr1) \<Rightarrow> (Inl e, tr1)
         | (Inr _, tr1) \<Rightarrow>
             (case remote (AddLabels (number issue) [staleLabel])
                     (\<lambda>h. addLabels c h (number issue) [staleLabel]) tr1 of
                (Inl e, tr2) \<Rightarrow> (Inl e, tr2)
              | (Inr _, tr2) \<Rightarrow> (Inr 2, tr2)))
      else (Inr 0, tr))"

text \<open>
  \<^verbatim>\<open>encodeURIComponent\<close> on a string of UTF-8 bytes: every byte but the unreserved
  \<^verbatim>\<open>A-Z a-z 0-9 - _ . ! ~ * ' ( )\<close> becomes \<^verbatim>\<open>%XX\<close> with upper-case hexadecimal digits.
\<close>

definition hexDigit :: "nat \<Rightarrow> char" where
  "hexDigit d = (if d < 10 then char_of (48 + d) else char_of (55 + d))"

definition unreservedChar :: "char \<Rightarrow> bool" where
  "unreservedChar ch =
     (let n = (of_char ch :: nat)
      in (65 \<le> n \<and> n \<le> 90) \<or> (97 \<le> n \<and> n \<le> 122) \<or> (48 \<le> n \<and> n \<le> 57)
         \<or> ch \<in> set ''-_.!~*()'' \<or> n = 39)"

fun encodeURIComponent :: "string \<Rightarrow> string" where
  "encodeURIComponent [] = []"
| "encodeURIComponent (ch # s) =
     (if unreservedChar ch then ch # encodeURIComponent s
      else CHR ''%'' # hexDigit (of_char ch div 16) # hexDigit (of_char ch mod 16)
             # encodeURIComponent s)"

text \<open>Lines 193-215.\<close>

definition removeStaleLabel ::
  "client \<Rightarrow> Issue \<Rightarrow> string \<Rightarrow> bool \<Rightarrow> call list \<Rightarrow> (error + int) \<times> call list" where
  "removeStaleLabel c issue staleLabel dryRun tr =
     (if \<not> dryRun then
        (case remote (RemoveLabel (number issue) (encodeURIComponent staleLabel))
                (\<lambda>h. removeLabel c h (number issue) (encodeURIComponent staleLabel)) tr of
           (Inl e, tr1) \<Rightarrow> (Inl e, tr1)
         | (Inr _, tr1) \<Rightarrow> (Inr 1, tr1))
      else (Inr 0, tr))"

text \<open>Lines 217-244.\<close>

definition closeIssue ::
  "client \<Rightarrow> Issue \<Rightarrow> string \<Rightarrow> bool \<Rightarrow> call list \<Rightarrow> (error + int) \<times> call list" where
  "closeIssue c issue closeMessage dryRun tr =
     (if \<not> dryRun then
        (case remote (CreateComment (number issue) closeMessage)
                (\<lambda>h. createComment c h (number issue) closeMessage) tr of
           (Inl e, tr1) \<Rightarrow> (Inl e, tr1)
         | (Inr _, tr1) \<Rightarrow>
             (case remote (Update (number issue) ''closed'')
                     (\<lambda>h. update c h (number issue) ''closed'') tr1 of
                (Inl e, tr2) \<Rightarrow> (Inl e, tr2)
              | (Inr _, tr2) \<Rightarrow> (Inr 2, tr2)))
      else (Inr 0, tr))"

section \<open>processIssues\<close>

text \<open>The locals of the loop body, lines 73-82.\<close>

definition isPr :: "Issue \<Rightarrow> bool" where
  "isPr issue = (pull_request issue \<noteq> None)"

definition staleMessageOf :: "Args \<Rightarrow> Issue \<Rightarrow> string" where
  "staleMessageOf args issue = (if isPr issue then stalePrMessage args else staleIssueMessage args)"

definition staleLabelOf :: "Args \<Rightarrow> Issue \<Rightarrow> string" where
  "staleLabelOf args issue = (if isPr issue then stalePrLabel args else staleIssueLabel args)"

definition exemptLabelOf :: "Args \<Rightarrow> Issue \<Rightarrow> string" where
  "exemptLabelOf args issue = (if isPr issue then exemptPrLabel args else exemptIssueLabel args)"

text \<open>
  Lines 86-123, the branch of an item that carries the stale label. The result is the
  operations counter after the branch.
\<close>

definition staleLabeled ::
  "utils \<Rightarrow> client \<Rightarrow> Args \<Rightarrow> Issue \<Rightarrow> string \<Rightarrow> int \<Rightarrow> call list \<Rightarrow> (error + int) \<times> call list" where
  "staleLabeled u c args issue staleLabel operationsLeft tr =
     (case remote (GetDateOfLastAppliedStaleLabel (number issue) staleLabel)
             (\<lambda>h. getDateOfLastAppliedStaleLabel u h issue staleLabel) tr of
        (Inl e, tr1) \<Rightarrow> (Inl e, tr1)
      | (Inr dateOfStaleLabelApplication, tr1) \<Rightarrow>
          (case issueHasActivitySinceStaleLabelWasApplied c issue dateOfStaleLabelApplication tr1 of
             (Inl e, tr2) \<Rightarrow> (Inl e, tr2)
           | (Inr wasThereUserActivitySinceThat, tr2) \<Rightarrow>
               (let ops = operationsLeft - 1 - 1 in
                if \<not> wasThereUserActivitySinceThat
                   \<and> appliedLabelBefore u dateOfStaleLabelApplication (daysBeforeClose args)
                then
                  (case closeIssue c issue (stalePrMessage args) (DRY_RUN args) tr2 of
                     (Inl e, tr3) \<Rightarrow> (Inl e, tr3)
                   | (Inr k, tr3) \<Rightarrow> (Inr (ops - k), tr3))
                else if wasThereUserActivitySinceThat then
                  (case removeStaleLabel c issue staleLabel (DRY_RUN args) tr2 of
                     (Inl e, tr3) \<Rightarrow> (Inl e, tr3)
                   | (Inr k, tr3) \<Rightarrow> (Inr (ops - k), tr3))
                else (Inr ops, tr2))))"

text \<open>
  One round of the \<^verbatim>\<open>for\<close> loop, lines 72-139: \<open>Next n\<close> goes on to the next item with
  the counter at \<open>n\<close> (also after a \<^verbatim>\<open>continue\<close>, which skips the check of line 134),
  \<open>Return n\<close> leaves \<^verbatim>\<open>processIssues\<close> with the value \<open>n\<close>.
\<close>

datatype loop = Next int | Return int

text \<open>Lines 134-139, the check that ends a round in which the item was not skipped.\<close>

definition checkBudget :: "int \<Rightarrow> loop" where
  "checkBudget operationsLeft = (if operationsLeft \<le> 0 then Return 0 else Next operationsLeft)"

definition processIssue ::
  "utils \<Rightarrow> client \<Rightarrow> Args \<Rightarrow> Issue \<Rightarrow> int \<Rightarrow> call list \<Rightarrow> (error + loop) \<times> call list" where
  "processIssue u c args issue operationsLeft tr =
     (let staleMessage = staleMessageOf args issue in
      if staleMessage = [] then (Inr (Next operationsLeft), tr)
      else
        (let staleLabel = staleLabelOf args issue;
             exemptLabel = exemptLabelOf args issue
         in if exemptLabel \<noteq> [] \<and> isLabeled u issue exemptLabel then (Inr (Next operationsLeft), tr)
            else
              (case (if isLabeled u issue staleLabel
                     then staleLabeled u c args issue staleLabel operationsLeft tr
                     else if wasLastUpdatedBefore u issue (daysBeforeStale args)
                     then (case addStaleLabel c issue staleMessage staleLabel (DRY_RUN args) tr of
                             (Inl e, tr1) \<Rightarrow> (Inl e, tr1)
                           | (Inr k, tr1) \<Rightarrow> (Inr (operationsLeft - k), tr1))
                     else (Inr operationsLeft, tr)) of
                 (Inl e, tr1) \<Rightarrow> (Inl e, tr1)
               | (Inr ops, tr1) \<Rightarrow> (Inr (checkBudget ops), tr1))))"

text \<open>The \<^verbatim>\<open>for\<close> loop over the items of one page.\<close>

fun forIssues ::
  "utils \<Rightarrow> client \<Rightarrow> Args \<Rightarrow> Issue list \<Rightarrow> int \<Rightarrow> call list \<Rightarrow> (error + loop) \<times> call list" where
  "forIssues u c args [] operationsLeft tr = (Inr (Next operationsLeft), tr)"
| "forIssues u c args (issue # issues) operationsLeft tr =
     (case processIssue u c args issue operationsLeft tr of
        (Inl e, tr1) \<Rightarrow> (Inl e, tr1)
      | (Inr (Return r), tr1) \<Rightarrow> (Inr (Return r), tr1)
      | (Inr (Next ops), tr1) \<Rightarrow> forIssues u c args issues ops tr1)"

text \<open>
  Lines 51-142. The recursion on the next page need not end (a remote that never
  answers with an empty page, a counter below zero and items that are all skipped),
  so the function is partial: \<open>None\<close> is a run that does not return.
\<close>

partial_function (option) processIssues ::
  "utils \<Rightarrow> client \<Rightarrow> Args \<Rightarrow> int \<Rightarrow> nat \<Rightarrow> call list \<Rightarrow> ((error + int) \<times> call list) option" where
  "processIssues u c args operationsLeft page tr =
     (case remote (ListForRepo page) (\<lambda>h. listForRepo c h page) tr of
        (Inl e, tr1) \<Rightarrow> Some (Inl e, tr1)
      | (Inr issues, tr1) \<Rightarrow>
          (let ops = operationsLeft - 1 in
           if issues = [] \<or> ops = 0 then Some (Inr ops, tr1)
           else
             (case forIssues u c args issues ops tr1 of
                (Inl e, tr2) \<Rightarrow> Some (Inl e, tr2)
              | (Inr (Return r), tr2) \<Rightarrow> Some (Inr r, tr2)
              | (Inr (Next ops2), tr2) \<Rightarrow> processIssues u c args ops2 (page + 1) tr2)))"

declare processIssues.simps [code]

section \<open>Reading the inputs\<close>

text \<open>
  \<^verbatim>\<open>parseInt\<close> of JavaScript with no radix given, on ASCII input: leading white space
  is dropped, then an optional sign, then \<^verbatim>\<open>0x\<close> or \<^verbatim>\<open>0X\<close> selects radix 16, and the
  longest run of digits of the radix is the number; no digit at all gives \<^verbatim>\<open>NaN\<close>,
  here \<open>None\<close>. What follows the digits is ignored.
\<close>

definition isWhiteSpace :: "char \<Rightarrow> bool" where
  "isWhiteSpace ch = ((of_char ch :: nat) \<in> {9, 10, 11, 12, 13, 32})"

definition digitOf :: "char \<Rightarrow> nat option" where
  "digitOf ch =
     (let n = (of_char ch :: nat)
      in if 48 \<le> n \<and> n \<le> 57 then Some (n - 48)
         else if 97 \<le> n \<and> n \<le> 122 then Some (n - 87)
         else if 65 \<le> n \<and> n \<le> 90 then Some (n - 55)
         else None)"

definition isRadixDigit :: "nat \<Rightarrow> char \<Rightarrow> bool" where
  "isRadixDigit R ch = (case digitOf ch of Some d \<Rightarrow> d < R | None \<Rightarrow> False)"

definition radixValue :: "nat \<Rightarrow> string \<Rightarrow> nat" where
  "radixValue R Z = foldl (\<lambda>acc ch. acc * R + (case digitOf ch of Some d \<Rightarrow> d | None \<Rightarrow> 0)) 0 Z"

definition parseInt :: "string \<Rightarrow> int option" where
  "parseInt inputString =
     (let S = dropWhile isWhiteSpace inputString;
          sign = (case S of ch # _ \<Rightarrow> if ch = CHR ''-'' then - 1 else 1 | [] \<Rightarrow> (1 :: int));
          S1 = (case S of ch # rest \<Rightarrow> if ch = CHR ''+'' \<or> ch = CHR ''-'' then rest else S | [] \<Rightarrow> S);
          hex = (take 2 S1 = ''0x'' \<or> take 2 S1 = ''0X'');
          R = (if hex then 16 else 10);
          S2 = (if hex then drop 2 S1 else S1);
          Z = takeWhile (isRadixDigit R) S2
      in if Z = [] then None else Some (sign * int (radixValue R Z)))"

definition isNaN :: "int option \<Rightarrow> bool" where
  "isNaN x = (x = None)"

text \<open>
  \<^verbatim>\<open>core.getInput\<close> of the actions toolkit is a parameter: the name of the input and
  whether it is required, to the trimmed value or the error thrown for a required
  input that is not supplied.
\<close>

record core =
  getInput :: "string \<Rightarrow> bool \<Rightarrow> error + string"

text \<open>The loop of lines 267-275: the first input that does not parse is the error.\<close>

fun validateNumberInputs :: "core \<Rightarrow> string list \<Rightarrow> error option" where
  "validateNumberInputs co [] = None"
| "validateNumberInputs co (numberInput # rest) =
     (case getInput co numberInput False of
        Inl e \<Rightarrow> Some e
      | Inr v \<Rightarrow>
          if isNaN (parseInt v)
          then Some (Error (''input '' @ numberInput @ '' did not parse to a valid integer''))
          else validateNumberInputs co rest)"

definition numberInputs :: "string list" where
  "numberInputs = [''days-before-stale'', ''days-before-close'', ''operations-per-run'']"

text \<open>
  Lines 246-278. The object literal reads the inputs in the order written, and the
  first \<^verbatim>\<open>getInput\<close> that throws ends the function (\<open>andThen\<close>); then the loop
  checks the three numbers. A numeric field is \<^verbatim>\<open>parseInt\<close> of its input. The record
  is written down after the loop here, where the source builds it before: the
  loop throws for an input whose \<^verbatim>\<open>parseInt\<close> is \<^verbatim>\<open>NaN\<close>, so in a record that is
  returned \<open>the\<close> reads a number (lemma \<open>getAndValidateArgs_numbers\<close>).
\<close>

definition andThen :: "error + 'a \<Rightarrow> ('a \<Rightarrow> error + 'b) \<Rightarrow> error + 'b" where
  "andThen m f = (case m of Inl e \<Rightarrow> Inl e | Inr x \<Rightarrow> f x)"

definition getAndValidateArgs :: "core \<Rightarrow> utils \<Rightarrow> error + Args" where
  "getAndValidateArgs co u =
     andThen (getInput co ''repo-token'' True) (\<lambda>repoToken'.
     andThen (getInput co ''DRY_RUN'' False) (\<lambda>dryRun'.
     andThen (getInput co ''stale-issue-message'' False) (\<lambda>staleIssueMessage'.
     andThen (getInput co ''stale-pr-message'' False) (\<lambda>stalePrMessage'.
     andThen (getInput co ''days-before-stale'' True) (\<lambda>daysBeforeStale'.
     andThen (getInput co ''days-before-close'' True) (\<lambda>daysBeforeClose'.
     andThen (getInput co ''stale-issue-label'' True) (\<lambda>staleIssueLabel'.
     andThen (getInput co ''exempt-issue-label'' False) (\<lambda>exemptIssueLabel'.
     andThen (getInput co ''stale-pr-label'' True) (\<lambda>stalePrLabel'.
     andThen (getInput co ''exempt-pr-label'' False) (\<lambda>exemptPrLabel'.
     andThen (getInput co ''operations-per-run'' True) (\<lambda>operationsPerRun'.
       (case validateNumberInputs co numberInputs of
          Some e \<Rightarrow> Inl e
        | None \<Rightarrow>
            Inr \<lparr>
              repoToken = repoToken',
              DRY_RUN = isTrue u dryRun',
              staleIssueMessage = staleIssueMessage',
              stalePrMessage = stalePrMessage',
              daysBeforeStale = the (parseInt daysBeforeStale'),
              daysBeforeClose = the (parseInt daysBeforeClose'),
              staleIssueLabel = staleIssueLabel',
              exemptIssueLabel = exemptIssueLabel',
              stalePrLabel = stalePrLabel',
              exemptPrLabel = exemptPrLabel',
              operationsPerRun = the (parseInt operationsPerRun') \<rparr>))))))))))))"

text \<open>
  Lines 35-49. \<^verbatim>\<open>core.setFailed\<close> marks the run as failed with the error's message;
  the result pairs the status with the remote calls that were made. The constructor
  \<^verbatim>\<open>github.GitHub\<close>, from the token to the client, is a parameter.
\<close>

datatype status = Succeeded | Failed string

definition run :: "core \<Rightarrow> utils \<Rightarrow> (string \<Rightarrow> client) \<Rightarrow> (status \<times> call list) option" where
  "run co u GitHub =
     (case getAndValidateArgs co u of
        Inl (Error message) \<Rightarrow> Some (Failed message, [])
      | Inr args \<Rightarrow>
          (case processIssues u (GitHub (repoToken args)) args (operationsPerRun args) 1 [] of
             None \<Rightarrow> None
           | Some (Inl (Error message), tr) \<Rightarrow> Some (Failed message, tr)
           | Some (Inr _, tr) \<Rightarrow> Some (Succeeded, tr)))"

section \<open>A static repository for the examples\<close>

text \<open>
  The examples run the program against a remote that never fails and never changes:
  \<open>pages\<close> are the pages of open items, \<open>comments\<close> the comments by issue number.
\<close>

definition staticClient :: "Issue list list \<Rightarrow> (int \<times> Comment list) list \<Rightarrow> client" where
  "staticClient pages comments = \<lparr>
     listForRepo = (\<lambda>h page. Inr (if 1 \<le> page \<and> page \<le> length pages then pages ! (page - 1) else [])),
     listComments = (\<lambda>h n since. Inr (case map_of comments n of Some cs \<Rightarrow> cs | None \<Rightarrow> [])),
     createComment = (\<lambda>h n b. Inr ()),
     addLabels = (\<lambda>h n ls. Inr ()),
     removeLabel = (\<lambda>h n l. Inr ()),
     update = (\<lambda>h n s. Inr ()) \<rparr>"

text \<open>
  Helpers for the examples, with time stamps written as day numbers and \<open>today\<close>
  the day of the run: an item is labeled when the name is among its labels, a date
  lies before \<open>n\<close> days when it is at least \<open>n\<close> days back, and \<open>applied\<close> gives the day
  the stale label was last applied, by issue number.
\<close>

definition daysSince :: "int \<Rightarrow> string \<Rightarrow> int \<Rightarrow> bool" where
  "daysSince today date n = (case parseInt date of Some d \<Rightarrow> n \<le> today - d | None \<Rightarrow> False)"

definition staticUtils :: "int \<Rightarrow> (int \<times> string) list \<Rightarrow> utils" where
  "staticUtils today applied = \<lparr>
     wasLastUpdatedBefore = (\<lambda>issue n. daysSince today (updated_at issue) n),
     appliedLabelBefore = (\<lambda>date n. daysSince today date n),
     isLabeled = (\<lambda>issue label. label \<in> set (labels issue)),
     isTrue = (\<lambda>s. s = ''true''),
     getDateOfLastAppliedStaleLabel = (\<lambda>h issue label.
        case map_of applied (number issue) of
          Some d \<Rightarrow> Inr d
        | None \<Rightarrow> Inl (Error ''no label event'')) \<rparr>"

text \<open>
  Inputs for the examples, given by name: an input that is not supplied is the empty
  string, and a required one that is empty is an error, as in the toolkit.
\<close>

definition staticCore :: "(string \<times> string) list \<Rightarrow> core" where
  "staticCore inputs = \<lparr>
     getInput = (\<lambda>name required.
        if required \<and> (case map_of inputs name of Some v \<Rightarrow> v | None \<Rightarrow> []) = []
        then Inl (Error (''Input required and not supplied: '' @ name))
        else Inr (case map_of inputs name of Some v \<Rightarrow> v | None \<Rightarrow> [])) \<rparr>"

text \<open>The inputs of the examples, which give the configuration below; the budget varies.\<close>

definition exampleInputs :: "string \<Rightarrow> (string \<times> string) list" where
  "exampleInputs budget =
     [(''repo-token'', ''token''),
      (''stale-issue-message'', ''This issue is stale''),
      (''stale-pr-message'', ''This pull request is stale''),
      (''days-before-stale'', ''30''),
      (''days-before-close'', ''30''),
      (''stale-issue-label'', ''stale''),
      (''exempt-issue-label'', ''pinned''),
      (''stale-pr-label'', ''stale''),
      (''exempt-pr-label'', ''pinned''),
      (''operations-per-run'', budget)]"

text \<open>The configuration of the examples; the budget and the dry-run flag vary.\<close>

definition exampleArgs :: "bool \<Rightarrow> int \<Rightarrow> Args" where
  "exampleArgs dryRun budget = \<lparr>
     repoToken = ''token'',
     DRY_RUN = dryRun,
     staleIssueMessage = ''This issue is stale'',
     stalePrMessage = ''This pull request is stale'',
     daysBeforeStale = 30,
     daysBeforeClose = 30,
     staleIssueLabel = ''stale'',
     exemptIssueLabel = ''pinned'',
     stalePrLabel = ''stale'',
     exemptPrLabel = ''pinned'',
     operationsPerRun = budget \<rparr>"

text \<open>
  The items of the examples, on day 100: an issue last updated on day 60, a pull
  request labeled stale on day 90 with a user's comment of day 98, an issue labeled
  stale on day 60 with no comment, and a pinned issue and a pinned pull request that
  are otherwise like these two.
\<close>

definition oldIssue :: Issue where
  "oldIssue = \<lparr> number = 1, title = ''Old issue'', updated_at = ''60'',
                 pull_request = None, labels = [] \<rparr>"

definition activePr :: Issue where
  "activePr = \<lparr> number = 2, title = ''Active pull request'', updated_at = ''98'',
                 pull_request = Some ''pulls/2'', labels = [''stale''] \<rparr>"

definition staleIssue :: Issue where
  "staleIssue = \<lparr> number = 3, title = ''Stale issue'', updated_at = ''60'',
                   pull_request = None, labels = [''stale''] \<rparr>"

definition pinnedIssue :: Issue where
  "pinnedIssue = \<lparr> number = 4, title = ''Pinned issue'', updated_at = ''60'',
                    pull_request = None, labels = [''stale'', ''pinned''] \<rparr>"

definition pinnedPr :: Issue where
  "pinnedPr = \<lparr> number = 5, title = ''Pinned pull request'', updated_at = ''98'',
                 pull_request = Some ''pulls/5'', labels = [''stale'', ''pinned''] \<rparr>"

definition exampleUtils :: utils where
  "exampleUtils = staticUtils 100 [(2, ''90''), (3, ''60''), (4, ''60''), (5, ''90'')]"

definition exampleClient :: "Issue list list \<Rightarrow> client" where
  "exampleClient pages =
     staticClient pages
       [(2, [\<lparr> user_type = ''User'', body = ''Still relevant'', created_at = ''98'' \<rparr>]),
        (5, [\<lparr> user_type = ''User'', body = ''Still relevant'', created_at = ''98'' \<rparr>])]"

section \<open>Predicates of the statements\<close>

text \<open>
  An item is skipped when the loop body leaves it by \<^verbatim>\<open>continue\<close>: the stale message
  of its role is empty (line 76), or the exempt label of its role is configured and
  on the item (line 84).
\<close>

definition skipped :: "utils \<Rightarrow> Args \<Rightarrow> Issue \<Rightarrow> bool" where
  "skipped u args issue =
     (staleMessageOf args issue = []
      \<or> (exemptLabelOf args issue \<noteq> [] \<and> isLabeled u issue (exemptLabelOf args issue)))"

text \<open>
  A numeric string as the specification speaks of one: an optional sign, then one or
  more decimal digits, and nothing else. It is used to state where \<^verbatim>\<open>parseInt\<close>
  accepts more.
\<close>

definition decimalInteger :: "string \<Rightarrow> bool" where
  "decimalInteger s =
     (let digits = (case s of ch # rest \<Rightarrow> if ch = CHR ''+'' \<or> ch = CHR ''-'' then rest else s | [] \<Rightarrow> s)
      in digits \<noteq> [] \<and> list_all (isRadixDigit 10) digits)"

text \<open>The two lookups of the round of an item that carries the stale label (lines 88 and 97).\<close>

definition staleLookups :: "Issue \<Rightarrow> string \<Rightarrow> string \<Rightarrow> call list" where
  "staleLookups issue staleLabel date =
     [GetDateOfLastAppliedStaleLabel (number issue) staleLabel, ListComments (number issue) date]"

text \<open>
  Bookkeeping of the proofs. \<open>performed\<close>: what a mutating helper did, \<open>new\<close> being
  the calls it made and \<open>res\<close> the operations it reports. \<open>counted\<close> and \<open>accounted\<close>:
  the counter after a branch, respectively a round, is the counter before less one
  per call made, and a dry run makes lookups only.
\<close>

definition performed :: "bool \<Rightarrow> call list \<Rightarrow> (error + int) \<Rightarrow> bool" where
  "performed dry new res =
     (list_all isMutation new \<and> length new \<le> 2 \<and> (dry \<longrightarrow> new = [])
      \<and> (case res of Inl e \<Rightarrow> True | Inr k \<Rightarrow> k = int (length new)))"

definition counted :: "bool \<Rightarrow> int \<Rightarrow> call list \<Rightarrow> (error + int) \<Rightarrow> bool" where
  "counted dry ops new res =
     (length (filter isMutation new) \<le> 2 \<and> (dry \<longrightarrow> list_all isLookup new)
      \<and> (case res of Inl e \<Rightarrow> True | Inr k \<Rightarrow> k = ops - int (length new)))"

definition accounted :: "bool \<Rightarrow> int \<Rightarrow> call list \<Rightarrow> (error + loop) \<Rightarrow> bool" where
  "accounted dry ops new res =
     ((dry \<longrightarrow> list_all isLookup new)
      \<and> (case res of
            Inl e \<Rightarrow> True
          | Inr (Next k) \<Rightarrow> k = ops - int (length new)
          | Inr (Return r) \<Rightarrow> r = 0 \<and> ops - int (length new) \<le> 0))"



section \<open>Every call is counted\<close>

lemma closeIssue_performed:
  assumes "closeIssue c issue m dry tr = (res, tr')"
  shows "\<exists>new. tr' = tr @ new \<and> performed dry new res"
  using assms
  by (cases dry; cases "createComment c tr (number issue) m";
      cases "update c (tr @ [CreateComment (number issue) m]) (number issue) ''closed''")
     (auto simp add: closeIssue_def remote_def performed_def isMutation_def)

lemma removeStaleLabel_performed:
  assumes "removeStaleLabel c issue l dry tr = (res, tr')"
  shows "\<exists>new. tr' = tr @ new \<and> performed dry new res"
  using assms
  by (cases dry; cases "removeLabel c tr (number issue) (encodeURIComponent l)")
     (auto simp add: removeStaleLabel_def remote_def performed_def isMutation_def)

lemma addStaleLabel_performed:
  assumes "addStaleLabel c issue m l dry tr = (res, tr')"
  shows "\<exists>new. tr' = tr @ new \<and> performed dry new res"
  using assms
  by (cases dry; cases "createComment c tr (number issue) m";
      cases "addLabels c (tr @ [CreateComment (number issue) m]) (number issue) [l]")
     (auto simp add: addStaleLabel_def remote_def performed_def isMutation_def)

lemma performed_counted:
  "performed dry new res \<Longrightarrow>
   counted dry ops new (case res of Inl e \<Rightarrow> Inl e | Inr k \<Rightarrow> Inr (ops - k))"
  by (cases res) (auto simp add: performed_def counted_def isMutation_def list_all_iff)

lemma performed_counted2:
  "performed dry new res \<Longrightarrow> isLookup a \<Longrightarrow> isLookup b \<Longrightarrow>
   counted dry ops ([a, b] @ new) (case res of Inl e \<Rightarrow> Inl e | Inr k \<Rightarrow> Inr (ops - 1 - 1 - k))"
  by (cases res) (auto simp add: performed_def counted_def isMutation_def list_all_iff)

lemma staleLabeled_counted:
  assumes "staleLabeled u c args issue l ops tr = (res, tr')"
  shows "\<exists>new. tr' = tr @ new \<and> counted (DRY_RUN args) ops new res"
proof -
  let ?g = "GetDateOfLastAppliedStaleLabel (number issue) l"
  show ?thesis
  proof (cases "getDateOfLastAppliedStaleLabel u tr issue l")
    case (Inl e)
    with assms have "tr' = tr @ [?g]" "res = Inl e"
      by (simp_all add: staleLabeled_def remote_def)
    then have "tr' = tr @ [?g] \<and> counted (DRY_RUN args) ops [?g] res"
      by (simp add: counted_def isMutation_def)
    then show ?thesis by blast
  next
    case date: (Inr date)
    let ?l = "ListComments (number issue) date"
    show ?thesis
    proof (cases "listComments c (tr @ [?g]) (number issue) date")
      case (Inl e)
      with assms date have "tr' = tr @ [?g, ?l]" "res = Inl e"
        by (simp_all add: staleLabeled_def remote_def issueHasActivitySinceStaleLabelWasApplied_def)
      then have "tr' = tr @ [?g, ?l] \<and> counted (DRY_RUN args) ops [?g, ?l] res"
        by (simp add: counted_def isMutation_def)
      then show ?thesis by blast
    next
      case comments: (Inr comments)
      let ?activity = "0 < length (filter (\<lambda>comment. user_type comment = ''User'') comments)"
      let ?tr2 = "tr @ [?g, ?l]"
      note defs = staleLabeled_def remote_def issueHasActivitySinceStaleLabelWasApplied_def Let_def
      consider (close) "\<not> ?activity \<and> appliedLabelBefore u date (daysBeforeClose args)"
        | (remove) "\<not> (\<not> ?activity \<and> appliedLabelBefore u date (daysBeforeClose args))" "?activity"
        | (none) "\<not> (\<not> ?activity \<and> appliedLabelBefore u date (daysBeforeClose args))" "\<not> ?activity"
        by blast
      then show ?thesis
      proof cases
        case close
        obtain r3 t3 where h: "closeIssue c issue (stalePrMessage args) (DRY_RUN args) ?tr2 = (r3, t3)"
          by (cases "closeIssue c issue (stalePrMessage args) (DRY_RUN args) ?tr2")
        from closeIssue_performed [OF h] obtain new3 where
          n3: "t3 = ?tr2 @ new3" "performed (DRY_RUN args) new3 r3" by blast
        from assms date comments close h have "tr' = t3" "res = (case r3 of Inl e \<Rightarrow> Inl e | Inr k \<Rightarrow> Inr (ops - 1 - 1 - k))"
          by (cases r3, auto simp add: defs)+
        with n3 performed_counted2 [OF n3(2), of ?g ?l ops]
        have "tr' = tr @ ([?g, ?l] @ new3) \<and> counted (DRY_RUN args) ops ([?g, ?l] @ new3) res"
          by simp
        then show ?thesis by blast
      next
        case remove
        obtain r3 t3 where h: "removeStaleLabel c issue l (DRY_RUN args) ?tr2 = (r3, t3)"
          by (cases "removeStaleLabel c issue l (DRY_RUN args) ?tr2")
        from removeStaleLabel_performed [OF h] obtain new3 where
          n3: "t3 = ?tr2 @ new3" "performed (DRY_RUN args) new3 r3" by blast
        from assms date comments remove h have "tr' = t3" "res = (case r3 of Inl e \<Rightarrow> Inl e | Inr k \<Rightarrow> Inr (ops - 1 - 1 - k))"
          by (cases r3, auto simp add: defs)+
        with n3 performed_counted2 [OF n3(2), of ?g ?l ops]
        have "tr' = tr @ ([?g, ?l] @ new3) \<and> counted (DRY_RUN args) ops ([?g, ?l] @ new3) res"
          by simp
        then show ?thesis by blast
      next
        case none
        with assms date comments have "tr' = tr @ [?g, ?l]" "res = Inr (ops - 1 - 1)"
          by (simp_all add: defs)
        then have "tr' = tr @ [?g, ?l] \<and> counted (DRY_RUN args) ops [?g, ?l] res"
          by (simp add: counted_def isMutation_def)
        then show ?thesis by blast
      qed
    qed
  qed
qed

lemma processIssue_skipped:
  "skipped u args issue \<Longrightarrow> processIssue u c args issue ops tr = (Inr (Next ops), tr)"
  by (auto simp add: skipped_def processIssue_def Let_def)

lemma processIssue_not_skipped:
  "\<not> skipped u args issue \<Longrightarrow>
   processIssue u c args issue ops tr =
     (case (if isLabeled u issue (staleLabelOf args issue)
            then staleLabeled u c args issue (staleLabelOf args issue) ops tr
            else if wasLastUpdatedBefore u issue (daysBeforeStale args)
            then (case addStaleLabel c issue (staleMessageOf args issue) (staleLabelOf args issue)
                         (DRY_RUN args) tr of
                    (Inl e, tr1) \<Rightarrow> (Inl e, tr1)
                  | (Inr k, tr1) \<Rightarrow> (Inr (ops - k), tr1))
            else (Inr ops, tr)) of
        (Inl e, tr1) \<Rightarrow> (Inl e, tr1)
      | (Inr ops', tr1) \<Rightarrow> (Inr (checkBudget ops'), tr1))"
  unfolding skipped_def processIssue_def Let_def by (simp only: if_False de_Morgan_disj simp_thms split: if_splits)

lemma counted_accounted:
  "counted dry ops new r \<Longrightarrow>
   accounted dry ops new (case r of Inl e \<Rightarrow> Inl e | Inr k \<Rightarrow> Inr (checkBudget k))"
  by (cases r) (auto simp add: counted_def accounted_def checkBudget_def)

lemma processIssue_accounted:
  assumes "processIssue u c args issue ops tr = (res, tr')"
  shows "\<exists>new. tr' = tr @ new \<and> length (filter isMutation new) \<le> 2
           \<and> accounted (DRY_RUN args) ops new res"
proof (cases "skipped u args issue")
  case True
  with assms have "tr' = tr @ []" "res = Inr (Next ops)" by (simp_all add: processIssue_skipped)
  then have "tr' = tr @ [] \<and> length (filter isMutation []) \<le> 2
           \<and> accounted (DRY_RUN args) ops [] res"
    by (simp add: accounted_def)
  then show ?thesis by blast
next
  case False
  note eq = assms [unfolded processIssue_not_skipped [OF False]]
  have "\<exists>r1 new. res = (case r1 of Inl e \<Rightarrow> Inl e | Inr k \<Rightarrow> Inr (checkBudget k))
          \<and> tr' = tr @ new \<and> counted (DRY_RUN args) ops new r1"
  proof (cases "isLabeled u issue (staleLabelOf args issue)")
    case True
    obtain r1 t1 where h: "staleLabeled u c args issue (staleLabelOf args issue) ops tr = (r1, t1)"
      by (cases "staleLabeled u c args issue (staleLabelOf args issue) ops tr")
    from staleLabeled_counted [OF h] obtain new where
      n: "t1 = tr @ new" "counted (DRY_RUN args) ops new r1" by blast
    from eq True h have "res = (case r1 of Inl e \<Rightarrow> Inl e | Inr k \<Rightarrow> Inr (checkBudget k))" "tr' = t1"
      by (cases r1, auto)+
    with n show ?thesis by blast
  next
    case unlabeled: False
    show ?thesis
    proof (cases "wasLastUpdatedBefore u issue (daysBeforeStale args)")
      case True
      obtain r0 t1 where h: "addStaleLabel c issue (staleMessageOf args issue) (staleLabelOf args issue)
                         (DRY_RUN args) tr = (r0, t1)"
        by (cases "addStaleLabel c issue (staleMessageOf args issue) (staleLabelOf args issue)
                         (DRY_RUN args) tr")
      from addStaleLabel_performed [OF h] obtain new where
        n: "t1 = tr @ new" "performed (DRY_RUN args) new r0" by blast
      let ?r1 = "case r0 of Inl e \<Rightarrow> Inl e | Inr k \<Rightarrow> Inr (ops - k)"
      from eq unlabeled True h have "res = (case ?r1 of Inl e \<Rightarrow> Inl e | Inr k \<Rightarrow> Inr (checkBudget k))" "tr' = t1"
        by (cases r0, auto)+
      with n performed_counted [OF n(2), of ops] show ?thesis by blast
    next
      case False
      with eq unlabeled have "res = (case Inr ops of Inl e \<Rightarrow> Inl e | Inr k \<Rightarrow> Inr (checkBudget k))"
        "tr' = tr @ []" by auto
      moreover have "counted (DRY_RUN args) ops [] (Inr ops)" by (simp add: counted_def)
      ultimately show ?thesis by blast
    qed
  qed
  then obtain r1 new where
    "res = (case r1 of Inl e \<Rightarrow> Inl e | Inr k \<Rightarrow> Inr (checkBudget k))"
    "tr' = tr @ new" "counted (DRY_RUN args) ops new r1"
    by blast
  with counted_accounted [of "DRY_RUN args" ops new r1]
  have "tr' = tr @ new \<and> length (filter isMutation new) \<le> 2
           \<and> accounted (DRY_RUN args) ops new res"
    by (simp add: counted_def)
  then show ?thesis by blast
qed



section \<open>The lookups of a round\<close>










section \<open>Runs with a budget of zero or less\<close>

text \<open>
  A round that does not skip its item and goes on leaves a counter of one or more
  (line 134). So from a counter of zero or less the first item that is not skipped
  ends the run; and since the fetch takes the counter below zero, where line 67
  does not stop, a first page that is not empty is always entered.
\<close>

lemma processIssue_Next_positive:
  assumes "\<not> skipped u args issue" and "processIssue u c args issue ops tr = (Inr (Next k), tr')"
  shows "1 \<le> k"
  using assms(2) [unfolded processIssue_not_skipped [OF assms(1)]]
  by (auto simp add: checkBudget_def split: prod.splits sum.splits if_splits)

lemma processIssue_nonpositive:
  assumes "ops \<le> 0" and "\<not> skipped u args issue"
  shows "fst (processIssue u c args issue ops tr) = Inr (Return 0)
         \<or> (\<exists>e. fst (processIssue u c args issue ops tr) = Inl e)"
proof -
  obtain res tr' where p: "processIssue u c args issue ops tr = (res, tr')"
    by (cases "processIssue u c args issue ops tr")
  from processIssue_accounted [OF p] obtain new where
    a: "accounted (DRY_RUN args) ops new res" by blast
  show ?thesis
  proof (cases res)
    case (Inl e)
    with p show ?thesis by simp
  next
    case (Inr l)
    show ?thesis
    proof (cases l)
      case (Next k)
      with Inr p processIssue_Next_positive [OF assms(2), of c ops tr k tr'] have "1 \<le> k" by simp
      moreover from a Inr Next have "k = ops - int (length new)" by (simp add: accounted_def)
      ultimately show ?thesis using assms(1) by simp
    next
      case (Return r)
      with a Inr p show ?thesis by (simp add: accounted_def)
    qed
  qed
qed

lemma processIssues_nonpositive:
  assumes "ops \<le> 0" and "listForRepo c tr page = Inr (issue # issues)"
    and "\<not> skipped u args issue"
  shows "processIssues u c args ops page tr
           = Some (case fst (processIssue u c args issue (ops - 1) (tr @ [ListForRepo page])) of
                     Inl e \<Rightarrow> Inl e
                   | Inr l \<Rightarrow> Inr 0,
                   snd (processIssue u c args issue (ops - 1) (tr @ [ListForRepo page])))"
proof -
  from assms(1) have k: "ops - 1 \<le> 0" "ops - 1 \<noteq> 0" by simp_all
  obtain res tr' where p: "processIssue u c args issue (ops - 1) (tr @ [ListForRepo page]) = (res, tr')"
    by (cases "processIssue u c args issue (ops - 1) (tr @ [ListForRepo page])")
  from processIssue_nonpositive [OF k(1) assms(3), of c "tr @ [ListForRepo page]"] p
  consider (ret) "res = Inr (Return 0)" | (err) e where "res = Inl e" by auto
  then show ?thesis
  proof cases
    case ret
    with p k(2) assms(2) show ?thesis
      by (subst processIssues.simps) (simp add: remote_def Let_def)
  next
    case err
    with p k(2) assms(2) show ?thesis
      by (subst processIssues.simps) (simp add: remote_def Let_def)
  qed
qed

section \<open>Validation of the inputs\<close>

lemma validateNumberInputs_NaN:
  "numberInput \<in> set names \<Longrightarrow> getInput co numberInput False = Inr v \<Longrightarrow> parseInt v = None \<Longrightarrow>
     \<exists>e. validateNumberInputs co names = Some e"
  by (induction names) (auto simp add: isNaN_def split: sum.splits)

lemma validateNumberInputs_numbers:
  "validateNumberInputs co names = None \<Longrightarrow> numberInput \<in> set names \<Longrightarrow>
     \<exists>v n. getInput co numberInput False = Inr v \<and> parseInt v = Some n"
  by (induction names) (auto simp add: isNaN_def split: sum.splits if_splits)

lemma getAndValidateArgs_invalid:
  "validateNumberInputs co numberInputs = Some e \<Longrightarrow> \<exists>e'. getAndValidateArgs co u = Inl e'"
  by (simp add: getAndValidateArgs_def andThen_def split: sum.splits)

lemma run_invalid:
  "getAndValidateArgs co u = Inl e \<Longrightarrow> \<exists>message. run co u GitHub = Some (Failed message, [])"
  by (cases e) (simp add: run_def)

text \<open>
  In a record that is returned, every numeric field is the integer that its input
  parses to, provided \<^verbatim>\<open>getInput\<close> gives the same value with and without the
  \<^verbatim>\<open>required\<close> option, as it does for an input that is supplied.
\<close>

lemma getAndValidateArgs_numbers:
  assumes "getAndValidateArgs co u = Inr args"
    and "\<forall>name v. getInput co name True = Inr v \<longrightarrow> getInput co name False = Inr v"
  shows "\<exists>stale close budget.
           getInput co ''days-before-stale'' True = Inr stale
           \<and> parseInt stale = Some (daysBeforeStale args)
           \<and> getInput co ''days-before-close'' True = Inr close
           \<and> parseInt close = Some (daysBeforeClose args)
           \<and> getInput co ''operations-per-run'' True = Inr budget
           \<and> parseInt budget = Some (operationsPerRun args)"
proof -
  from assms(1) obtain stale close budget where
    g: "getInput co ''days-before-stale'' True = Inr stale"
       "getInput co ''days-before-close'' True = Inr close"
       "getInput co ''operations-per-run'' True = Inr budget"
    and v: "validateNumberInputs co numberInputs = None"
    and a: "daysBeforeStale args = the (parseInt stale)"
       "daysBeforeClose args = the (parseInt close)"
       "operationsPerRun args = the (parseInt budget)"
    by (auto simp add: getAndValidateArgs_def andThen_def split: sum.splits option.splits)
  from g assms(2) have f: "getInput co ''days-before-stale'' False = Inr stale"
       "getInput co ''days-before-close'' False = Inr close"
       "getInput co ''operations-per-run'' False = Inr budget"
    by simp_all
  from validateNumberInputs_numbers [OF v, of "''days-before-stale''"] f(1)
  obtain x where "parseInt stale = Some x" by (auto simp add: numberInputs_def)
  moreover from validateNumberInputs_numbers [OF v, of "''days-before-close''"] f(2)
  obtain y where "parseInt close = Some y" by (auto simp add: numberInputs_def)
  moreover from validateNumberInputs_numbers [OF v, of "''operations-per-run''"] f(3)
  obtain z where "parseInt budget = Some z" by (auto simp add: numberInputs_def)
  ultimately show ?thesis using g a by simp
qed

section \<open>The fetch of a page\<close>




section \<open>Runs with a positive budget\<close>




section \<open>The examples, evaluated\<close>

lemmas parseInt_defs = parseInt_def isWhiteSpace_def isRadixDigit_def digitOf_def radixValue_def

lemma parseInt_examples:
  "parseInt ''60'' = Some 60" "parseInt ''90'' = Some 90" "parseInt ''98'' = Some 98"
  by (simp_all add: parseInt_defs)

lemma parseInt_more:
  "parseInt ''30'' = Some 30" "parseInt ''thirty'' = None" "parseInt ''0'' = Some 0"
  "parseInt ''-5'' = Some (- 5)" "parseInt ''12abc'' = Some 12" "parseInt [] = None"
  by (simp_all add: parseInt_defs)

lemmas example_defs = exampleUtils_def exampleClient_def staticUtils_def staticClient_def
  exampleArgs_def oldIssue_def activePr_def staleIssue_def pinnedIssue_def pinnedPr_def
  staleMessageOf_def staleLabelOf_def exemptLabelOf_def isPr_def daysSince_def parseInt_examples

lemmas branch_defs = staleLabeled_def issueHasActivitySinceStaleLabelWasApplied_def
  closeIssue_def removeStaleLabel_def addStaleLabel_def remote_def staleLookups_def Let_def

lemmas eval_defs = example_defs skipped_def checkBudget_def staleLookups_def

section \<open>Exempt items\<close>

text \<open>
  C7. An item that carries the configured, non-empty exempt label of its role is
  left alone whatever else holds of it: the round makes no remote call at all (no comment, no
  label change, no close, not even a lookup), leaves the operations counter as it
  was and goes on to the next item. Nothing is assumed about the stale label or the
  date of the last update, which the exempt check precedes.
\<close>

theorem exempt_item_is_skipped:
  assumes "exemptLabelOf args issue \<noteq> []"
    and "isLabeled u issue (exemptLabelOf args issue)"
  shows "processIssue u c args issue operationsLeft tr = (Inr (Next operationsLeft), tr)"
  using assms by (simp add: processIssue_def Let_def)

theorem exempt_item_is_skipped_witness:
  "exemptLabelOf (exampleArgs False 10) pinnedIssue \<noteq> []
   \<and> isLabeled exampleUtils pinnedIssue (exemptLabelOf (exampleArgs False 10) pinnedIssue)
   \<and> isLabeled exampleUtils pinnedIssue (staleLabelOf (exampleArgs False 10) pinnedIssue)
   \<and> wasLastUpdatedBefore exampleUtils pinnedIssue (daysBeforeStale (exampleArgs False 10))
   \<and> processIssue exampleUtils (exampleClient [[pinnedIssue]]) (exampleArgs False 10) pinnedIssue 10 []
       = (Inr (Next 10), [])"
proof -
  have a: "exemptLabelOf (exampleArgs False 10) pinnedIssue \<noteq> []"
    by (simp add: example_defs)
  have b: "isLabeled exampleUtils pinnedIssue (exemptLabelOf (exampleArgs False 10) pinnedIssue)"
    by (simp add: example_defs)
  have c: "isLabeled exampleUtils pinnedIssue (staleLabelOf (exampleArgs False 10) pinnedIssue)"
    by (simp add: example_defs)
  have d: "wasLastUpdatedBefore exampleUtils pinnedIssue (daysBeforeStale (exampleArgs False 10))"
    by (simp add: example_defs)
  from exempt_item_is_skipped [OF a b] a b c d show ?thesis by blast
qed

section \<open>Items that carry the stale label\<close>

text \<open>
  C4, as amended. Take an item that the loop does not skip, that carries the stale
  label of its role, among whose comments listed since the label was last applied
  none is by a user of type \<^verbatim>\<open>User\<close>, and whose label was applied before
  \<^verbatim>\<open>daysBeforeClose\<close> days; let the remote accept comments on it and its closing.
  In normal mode the round makes the two lookups, posts exactly one comment and then
  sets the state to closed, and the counter goes down by 2 for the lookups and 2 for
  the close. In a dry run it makes the two lookups only and the counter goes down
  by 2. The body of the comment is left open.
\<close>

theorem stale_item_is_closed:
  assumes "\<not> skipped u args issue"
    and "isLabeled u issue (staleLabelOf args issue)"
    and "getDateOfLastAppliedStaleLabel u tr issue (staleLabelOf args issue) = Inr date"
    and "listComments c (tr @ [GetDateOfLastAppliedStaleLabel (number issue) (staleLabelOf args issue)])
           (number issue) date = Inr comments"
    and "\<forall>comment \<in> set comments. user_type comment \<noteq> ''User''"
    and "appliedLabelBefore u date (daysBeforeClose args)"
    and "\<forall>h m. createComment c h (number issue) m = Inr ()"
    and "\<forall>h. update c h (number issue) ''closed'' = Inr ()"
  shows "if DRY_RUN args
         then processIssue u c args issue operationsLeft tr
                = (Inr (checkBudget (operationsLeft - 2)),
                   tr @ staleLookups issue (staleLabelOf args issue) date)
         else \<exists>closeMessage.
                processIssue u c args issue operationsLeft tr
                  = (Inr (checkBudget (operationsLeft - 2 - 2)),
                     tr @ staleLookups issue (staleLabelOf args issue) date
                        @ [CreateComment (number issue) closeMessage,
                           Update (number issue) ''closed''])"
proof -
  from assms(5) have none: "filter (\<lambda>comment. user_type comment = ''User'') comments = []"
    by (simp add: filter_empty_conv)
  show ?thesis
  proof (cases "DRY_RUN args")
    case True
    with assms(2-4,6) none show ?thesis
      by (simp add: processIssue_not_skipped [OF assms(1)] branch_defs)
  next
    case False
    with assms(2-4,6-8) none
    have "processIssue u c args issue operationsLeft tr
            = (Inr (checkBudget (operationsLeft - 2 - 2)),
               tr @ staleLookups issue (staleLabelOf args issue) date
                  @ [CreateComment (number issue) (stalePrMessage args),
                     Update (number issue) ''closed''])"
      by (simp add: processIssue_not_skipped [OF assms(1)] branch_defs)
    with False show ?thesis by auto
  qed
qed

text \<open>
  The issue of the examples that was labeled stale 40 days ago and has no comment,
  with a budget of 10: closed in normal mode with 6 left, looked up only in a dry run
  with 8 left.
\<close>

theorem stale_item_is_closed_witness:
  "\<not> skipped exampleUtils (exampleArgs False 10) staleIssue
   \<and> isLabeled exampleUtils staleIssue ''stale''
   \<and> appliedLabelBefore exampleUtils ''60'' 30
   \<and> (\<exists>closeMessage.
         processIssue exampleUtils (exampleClient [[staleIssue]]) (exampleArgs False 10) staleIssue 10 []
           = (Inr (Next 6),
              [GetDateOfLastAppliedStaleLabel 3 ''stale'', ListComments 3 ''60'',
               CreateComment 3 closeMessage, Update 3 ''closed'']))
   \<and> processIssue exampleUtils (exampleClient [[staleIssue]]) (exampleArgs True 10) staleIssue 10 []
         = (Inr (Next 8), [GetDateOfLastAppliedStaleLabel 3 ''stale'', ListComments 3 ''60''])"
proof -
  let ?u = exampleUtils and ?c = "exampleClient [[staleIssue]]"
  have h1: "\<not> skipped ?u (exampleArgs d 10) staleIssue" for d
    by (simp add: eval_defs)
  have h2: "isLabeled ?u staleIssue (staleLabelOf (exampleArgs d 10) staleIssue)" for d
    by (simp add: eval_defs)
  have h3: "getDateOfLastAppliedStaleLabel ?u [] staleIssue (staleLabelOf (exampleArgs d 10) staleIssue)
              = Inr ''60''" for d
    by (simp add: eval_defs)
  have h4: "listComments ?c ([] @ [GetDateOfLastAppliedStaleLabel (number staleIssue)
                                     (staleLabelOf (exampleArgs d 10) staleIssue)])
              (number staleIssue) ''60'' = Inr []" for d
    by (simp add: eval_defs)
  have h5: "\<forall>comment \<in> set ([] :: Comment list). user_type comment \<noteq> ''User''"
    by simp
  have h6: "appliedLabelBefore ?u ''60'' (daysBeforeClose (exampleArgs d 10))" for d
    by (simp add: eval_defs)
  have h7: "\<forall>h m. createComment ?c h (number staleIssue) m = Inr ()"
    by (simp add: eval_defs)
  have h8: "\<forall>h. update ?c h (number staleIssue) ''closed'' = Inr ()"
    by (simp add: eval_defs)
  from stale_item_is_closed [OF h1 h2 h3 h4 h5 h6 h7 h8, of False 10]
  have normal: "\<exists>closeMessage.
         processIssue ?u ?c (exampleArgs False 10) staleIssue 10 []
           = (Inr (Next 6),
              [GetDateOfLastAppliedStaleLabel 3 ''stale'', ListComments 3 ''60'',
               CreateComment 3 closeMessage, Update 3 ''closed''])"
    by (simp add: eval_defs)
  from stale_item_is_closed [OF h1 h2 h3 h4 h5 h6 h7 h8, of True 10]
  have dry: "processIssue ?u ?c (exampleArgs True 10) staleIssue 10 []
           = (Inr (Next 8), [GetDateOfLastAppliedStaleLabel 3 ''stale'', ListComments 3 ''60''])"
    by (simp add: eval_defs)
  from h1 [of False] h2 [of False] h6 [of False] normal dry show ?thesis
    by (simp add: eval_defs)
qed

text \<open>
  C4 as stated fails on an item that is skipped. The pinned issue carries the stale
  label, has no comment and was labeled 40 days ago, and the round makes no call;
  likewise the stale issue when the stale message for issues is empty.
\<close>

theorem stale_item_is_closed_counterexample:
  "isLabeled exampleUtils pinnedIssue ''stale''
   \<and> getDateOfLastAppliedStaleLabel exampleUtils [] pinnedIssue ''stale'' = Inr ''60''
   \<and> listComments (exampleClient [[pinnedIssue]]) [GetDateOfLastAppliedStaleLabel 4 ''stale''] 4 ''60''
        = Inr []
   \<and> appliedLabelBefore exampleUtils ''60'' (daysBeforeClose (exampleArgs False 10))
   \<and> \<not> DRY_RUN (exampleArgs False 10)
   \<and> processIssue exampleUtils (exampleClient [[pinnedIssue]]) (exampleArgs False 10) pinnedIssue 10 []
        = (Inr (Next 10), [])
   \<and> isLabeled exampleUtils staleIssue ''stale''
   \<and> processIssue exampleUtils (exampleClient [[staleIssue]])
         ((exampleArgs False 10) \<lparr> staleIssueMessage := [] \<rparr>) staleIssue 10 []
        = (Inr (Next 10), [])"
  by (simp add: eval_defs processIssue_def)

text \<open>
  C5, as amended. Take an item that the loop does not skip, that carries the stale
  label of its role, and among whose comments listed since the label was last
  applied one is by a user of type \<^verbatim>\<open>User\<close>; let the remote accept the removal of
  labels from it. In normal mode the round makes the two lookups and then removes
  the label (under its URI-encoded name) and nothing else, no comment and no close,
  and the counter goes down by 2 for the lookups and 1 for the removal. In a dry run
  it makes the two lookups only and the counter goes down by 2.
\<close>

theorem active_item_loses_stale_label:
  assumes "\<not> skipped u args issue"
    and "isLabeled u issue (staleLabelOf args issue)"
    and "getDateOfLastAppliedStaleLabel u tr issue (staleLabelOf args issue) = Inr date"
    and "listComments c (tr @ [GetDateOfLastAppliedStaleLabel (number issue) (staleLabelOf args issue)])
           (number issue) date = Inr comments"
    and "\<exists>comment \<in> set comments. user_type comment = ''User''"
    and "\<forall>h l. removeLabel c h (number issue) l = Inr ()"
  shows "processIssue u c args issue operationsLeft tr
           = (if DRY_RUN args
              then (Inr (checkBudget (operationsLeft - 2)),
                    tr @ staleLookups issue (staleLabelOf args issue) date)
              else (Inr (checkBudget (operationsLeft - 2 - 1)),
                    tr @ staleLookups issue (staleLabelOf args issue) date
                       @ [RemoveLabel (number issue) (encodeURIComponent (staleLabelOf args issue))]))"
proof -
  from assms(5) have some: "filter (\<lambda>comment. user_type comment = ''User'') comments \<noteq> []"
    by (simp add: filter_empty_conv)
  with assms(2-4,6) show ?thesis
    by (simp add: processIssue_not_skipped [OF assms(1)] branch_defs)
qed

text \<open>
  The pull request of the examples that was labeled stale 10 days ago and has a
  user's comment of 2 days ago, with a budget of 10.
\<close>

theorem active_item_loses_stale_label_witness:
  "\<not> skipped exampleUtils (exampleArgs False 10) activePr
   \<and> isLabeled exampleUtils activePr ''stale''
   \<and> processIssue exampleUtils (exampleClient [[activePr]]) (exampleArgs False 10) activePr 10 []
         = (Inr (Next 7),
            [GetDateOfLastAppliedStaleLabel 2 ''stale'', ListComments 2 ''90'', RemoveLabel 2 ''stale''])
   \<and> processIssue exampleUtils (exampleClient [[activePr]]) (exampleArgs True 10) activePr 10 []
         = (Inr (Next 8), [GetDateOfLastAppliedStaleLabel 2 ''stale'', ListComments 2 ''90''])"
proof -
  let ?u = exampleUtils and ?c = "exampleClient [[activePr]]"
  let ?comments = "[\<lparr> user_type = ''User'', body = ''Still relevant'', created_at = ''98'' \<rparr>]"
  have h1: "\<not> skipped ?u (exampleArgs d 10) activePr" for d
    by (simp add: eval_defs)
  have h2: "isLabeled ?u activePr (staleLabelOf (exampleArgs d 10) activePr)" for d
    by (simp add: eval_defs)
  have h3: "getDateOfLastAppliedStaleLabel ?u [] activePr (staleLabelOf (exampleArgs d 10) activePr)
              = Inr ''90''" for d
    by (simp add: eval_defs)
  have h4: "listComments ?c ([] @ [GetDateOfLastAppliedStaleLabel (number activePr)
                                     (staleLabelOf (exampleArgs d 10) activePr)])
              (number activePr) ''90'' = Inr ?comments" for d
    by (simp add: eval_defs)
  have h5: "\<exists>comment \<in> set ?comments. user_type comment = ''User''"
    by simp
  have h6: "\<forall>h l. removeLabel ?c h (number activePr) l = Inr ()"
    by (simp add: eval_defs)
  from active_item_loses_stale_label [OF h1 h2 h3 h4 h5 h6, of False 10]
  have normal: "processIssue ?u ?c (exampleArgs False 10) activePr 10 []
         = (Inr (Next 7),
            [GetDateOfLastAppliedStaleLabel 2 ''stale'', ListComments 2 ''90'', RemoveLabel 2 ''stale''])"
    by (simp add: eval_defs unreservedChar_def)
  from active_item_loses_stale_label [OF h1 h2 h3 h4 h5 h6, of True 10]
  have dry: "processIssue ?u ?c (exampleArgs True 10) activePr 10 []
         = (Inr (Next 8), [GetDateOfLastAppliedStaleLabel 2 ''stale'', ListComments 2 ''90''])"
    by (simp add: eval_defs)
  from h1 [of False] h2 [of False] normal dry show ?thesis
    by (simp add: eval_defs)
qed

text \<open>
  C5 as stated fails on an item that is skipped: the pinned pull request carries the
  stale label and has a user's comment after it, and the round makes no call;
  likewise the active pull request when the stale message for pull requests is empty.
\<close>

theorem active_item_loses_stale_label_counterexample:
  "isLabeled exampleUtils pinnedPr ''stale''
   \<and> getDateOfLastAppliedStaleLabel exampleUtils [] pinnedPr ''stale'' = Inr ''90''
   \<and> listComments (exampleClient [[pinnedPr]]) [GetDateOfLastAppliedStaleLabel 5 ''stale''] 5 ''90''
        = Inr [\<lparr> user_type = ''User'', body = ''Still relevant'', created_at = ''98'' \<rparr>]
   \<and> \<not> DRY_RUN (exampleArgs False 10)
   \<and> processIssue exampleUtils (exampleClient [[pinnedPr]]) (exampleArgs False 10) pinnedPr 10 []
        = (Inr (Next 10), [])
   \<and> isLabeled exampleUtils activePr ''stale''
   \<and> processIssue exampleUtils (exampleClient [[activePr]])
         ((exampleArgs False 10) \<lparr> stalePrMessage := [] \<rparr>) activePr 10 []
        = (Inr (Next 10), [])"
  by (simp add: eval_defs processIssue_def)

section \<open>Items that are not labeled yet\<close>

text \<open>
  C6, as amended. Take an item that the loop does not skip (in particular the stale
  message of its role is not empty), that does not carry the stale label of its role
  and was last updated before \<^verbatim>\<open>daysBeforeStale\<close> days; let the remote accept comments
  and labels on it. In normal mode the round posts the stale message of the item's
  role as a comment and then adds the stale label of the role, and the counter goes
  down by 2. In a dry run it makes no call and the counter stays.
\<close>

theorem old_item_gets_stale_label:
  assumes "\<not> skipped u args issue"
    and "\<not> isLabeled u issue (staleLabelOf args issue)"
    and "wasLastUpdatedBefore u issue (daysBeforeStale args)"
    and "\<forall>h m. createComment c h (number issue) m = Inr ()"
    and "\<forall>h ls. addLabels c h (number issue) ls = Inr ()"
  shows "processIssue u c args issue operationsLeft tr
           = (if DRY_RUN args
              then (Inr (checkBudget operationsLeft), tr)
              else (Inr (checkBudget (operationsLeft - 2)),
                    tr @ [CreateComment (number issue) (staleMessageOf args issue),
                          AddLabels (number issue) [staleLabelOf args issue]]))"
  using assms(2-5) by (simp add: processIssue_not_skipped [OF assms(1)] branch_defs)

text \<open>The issue of the examples that was last updated 40 days ago, with a budget of 10.\<close>

theorem old_item_gets_stale_label_witness:
  "\<not> skipped exampleUtils (exampleArgs False 10) oldIssue
   \<and> \<not> isLabeled exampleUtils oldIssue ''stale''
   \<and> wasLastUpdatedBefore exampleUtils oldIssue 30
   \<and> processIssue exampleUtils (exampleClient [[oldIssue]]) (exampleArgs False 10) oldIssue 10 []
         = (Inr (Next 8), [CreateComment 1 ''This issue is stale'', AddLabels 1 [''stale'']])
   \<and> processIssue exampleUtils (exampleClient [[oldIssue]]) (exampleArgs True 10) oldIssue 10 []
         = (Inr (Next 10), [])"
proof -
  let ?u = exampleUtils and ?c = "exampleClient [[oldIssue]]"
  have h1: "\<not> skipped ?u (exampleArgs d 10) oldIssue" for d
    by (simp add: eval_defs)
  have h2: "\<not> isLabeled ?u oldIssue (staleLabelOf (exampleArgs d 10) oldIssue)" for d
    by (simp add: eval_defs)
  have h3: "wasLastUpdatedBefore ?u oldIssue (daysBeforeStale (exampleArgs d 10))" for d
    by (simp add: eval_defs)
  have h4: "\<forall>h m. createComment ?c h (number oldIssue) m = Inr ()"
    by (simp add: eval_defs)
  have h5: "\<forall>h ls. addLabels ?c h (number oldIssue) ls = Inr ()"
    by (simp add: eval_defs)
  from old_item_gets_stale_label [OF h1 h2 h3 h4 h5, of False 10 "[]"]
  have normal: "processIssue ?u ?c (exampleArgs False 10) oldIssue 10 []
         = (Inr (Next 8), [CreateComment 1 ''This issue is stale'', AddLabels 1 [''stale'']])"
    by (simp add: eval_defs)
  from old_item_gets_stale_label [OF h1 h2 h3 h4 h5, of True 10 "[]"]
  have dry: "processIssue ?u ?c (exampleArgs True 10) oldIssue 10 [] = (Inr (Next 10), [])"
    by (simp add: eval_defs)
  from h1 [of False] h2 [of False] h3 [of False] normal dry show ?thesis
    by (simp add: eval_defs)
qed

text \<open>
  C6 as stated fails when the stale message of the item's role is empty: the old
  issue has neither the stale nor the exempt label and was last updated 40 days ago,
  and with an empty stale message for issues the round makes no call.
\<close>

theorem old_item_gets_stale_label_counterexample:
  "\<not> isLabeled exampleUtils oldIssue ''stale''
   \<and> \<not> isLabeled exampleUtils oldIssue ''pinned''
   \<and> wasLastUpdatedBefore exampleUtils oldIssue
         (daysBeforeStale ((exampleArgs False 10) \<lparr> staleIssueMessage := [] \<rparr>))
   \<and> \<not> DRY_RUN ((exampleArgs False 10) \<lparr> staleIssueMessage := [] \<rparr>)
   \<and> processIssue exampleUtils (exampleClient [[oldIssue]])
         ((exampleArgs False 10) \<lparr> staleIssueMessage := [] \<rparr>) oldIssue 10 []
        = (Inr (Next 10), [])"
  by (simp add: eval_defs processIssue_def)

section \<open>Where the program departs from the specification\<close>

text \<open>
  C2. The comment posted before closing should be the message of the item's role;
  \<^verbatim>\<open>closeIssue\<close> is called with \<^verbatim>\<open>args.stalePrMessage\<close> for every item (line 112). On
  the stale issue of the examples, a plain issue, the comment is the message for
  pull requests.
\<close>

theorem close_comment_of_issue_is_pr_message:
  "pull_request staleIssue = None
   \<and> staleIssueMessage (exampleArgs False 10) = ''This issue is stale''
   \<and> stalePrMessage (exampleArgs False 10) = ''This pull request is stale''
   \<and> processIssue exampleUtils (exampleClient [[staleIssue]]) (exampleArgs False 10) staleIssue 10 []
        = (Inr (Next 6),
           [GetDateOfLastAppliedStaleLabel 3 ''stale'', ListComments 3 ''60'',
            CreateComment 3 ''This pull request is stale'', Update 3 ''closed''])"
  by (simp add: eval_defs processIssue_def branch_defs)

text \<open>
  C1. The budget should bound the mutating calls of every run. With a budget of 0 the
  counter is -1 after the first fetch, which the test \<^verbatim>\<open>operationsLeft === 0\<close> of
  line 67 lets pass: the pinned issue is skipped with the counter below zero and the run goes on,
  and the old issue is commented and labeled, two mutations on a budget of none.
\<close>

theorem zero_budget_run_mutates:
  "operationsPerRun (exampleArgs False 0) = 0
   \<and> processIssues exampleUtils (exampleClient [[pinnedIssue, oldIssue]]) (exampleArgs False 0)
         (operationsPerRun (exampleArgs False 0)) 1 []
        = Some (Inr 0, [ListForRepo 1, CreateComment 1 ''This issue is stale'', AddLabels 1 [''stale'']])"
  by code_simp

text \<open>
  C3. A run whose budget is used up after the fetch should stop without processing
  an item. From a counter of 0 the fetch leaves -1, and the stale issue on the page
  is looked up, commented and closed before the run returns 0.
\<close>

theorem exhausted_budget_still_processes:
  "processIssues exampleUtils (exampleClient [[staleIssue]]) (exampleArgs False 0) 0 1 []
     = Some (Inr 0,
             [ListForRepo 1, GetDateOfLastAppliedStaleLabel 3 ''stale'', ListComments 3 ''60'',
              CreateComment 3 ''This pull request is stale'', Update 3 ''closed''])"
  by code_simp

section \<open>Dry runs\<close>






section \<open>Configuration errors\<close>

text \<open>
  C9, as amended. If the value of one of the inputs \<^verbatim>\<open>days-before-stale\<close>,
  \<^verbatim>\<open>days-before-close\<close> and \<^verbatim>\<open>operations-per-run\<close> does not begin with an integer
  (\<^verbatim>\<open>parseInt\<close> gives \<^verbatim>\<open>NaN\<close>: after white space and an optional sign there is no
  digit), then the run ends as failed with an error message and has made no remote
  call.
\<close>

theorem non_numeric_input_fails_before_any_call:
  assumes "numberInput \<in> set numberInputs"
    and "getInput co numberInput False = Inr v"
    and "parseInt v = None"
  shows "\<exists>message. run co u GitHub = Some (Failed message, [])"
proof -
  from validateNumberInputs_NaN [OF assms] obtain e where
    "validateNumberInputs co numberInputs = Some e" by blast
  from getAndValidateArgs_invalid [OF this] obtain e' where "getAndValidateArgs co u = Inl e'"
    by blast
  from run_invalid [OF this] show ?thesis .
qed

text \<open>The inputs of the examples with \<^verbatim>\<open>thirty\<close> for the budget.\<close>

theorem non_numeric_input_fails_before_any_call_witness:
  "''operations-per-run'' \<in> set numberInputs
   \<and> getInput (staticCore (exampleInputs ''thirty'')) ''operations-per-run'' False = Inr ''thirty''
   \<and> parseInt ''thirty'' = None
   \<and> run (staticCore (exampleInputs ''thirty'')) exampleUtils
          (\<lambda>token. exampleClient [[oldIssue]])
        = Some (Failed ''input operations-per-run did not parse to a valid integer'', [])"
proof -
  let ?co = "staticCore (exampleInputs ''thirty'')"
  have h1: "''operations-per-run'' \<in> set numberInputs" by (simp add: numberInputs_def)
  have h2: "getInput ?co ''operations-per-run'' False = Inr ''thirty''"
    by (simp add: staticCore_def exampleInputs_def)
  have h3: "parseInt ''thirty'' = None" by (simp add: parseInt_more)
  from non_numeric_input_fails_before_any_call [OF h1 h2 h3, of exampleUtils "\<lambda>token. exampleClient [[oldIssue]]"]
  obtain message where
    r: "run ?co exampleUtils (\<lambda>token. exampleClient [[oldIssue]]) = Some (Failed message, [])"
    by blast
  have "getAndValidateArgs ?co exampleUtils
          = Inl (Error ''input operations-per-run did not parse to a valid integer'')"
    by (simp add: getAndValidateArgs_def andThen_def staticCore_def exampleInputs_def numberInputs_def
        isNaN_def parseInt_more)
  then have "run ?co exampleUtils (\<lambda>token. exampleClient [[oldIssue]])
        = Some (Failed ''input operations-per-run did not parse to a valid integer'', [])"
    by (simp add: run_def)
  with r h1 h2 h3 show ?thesis by simp
qed

text \<open>
  C9 as stated fails on a value that is not numeric and begins with an integer: the
  budget \<^verbatim>\<open>12abc\<close> is read as 12, and the run succeeds after four remote calls.
\<close>

theorem non_numeric_input_fails_before_any_call_counterexample:
  "\<not> decimalInteger ''12abc''
   \<and> getInput (staticCore (exampleInputs ''12abc'')) ''operations-per-run'' False = Inr ''12abc''
   \<and> run (staticCore (exampleInputs ''12abc'')) exampleUtils (\<lambda>token. exampleClient [[oldIssue]])
        = Some (Succeeded,
                [ListForRepo 1, CreateComment 1 ''This issue is stale'', AddLabels 1 [''stale''],
                 ListForRepo 2])"
proof -
  have a: "\<not> decimalInteger ''12abc''"
    by (simp add: decimalInteger_def isRadixDigit_def digitOf_def)
  have b: "getInput (staticCore (exampleInputs ''12abc'')) ''operations-per-run'' False = Inr ''12abc''"
    by (simp add: staticCore_def exampleInputs_def)
  have g: "getAndValidateArgs (staticCore (exampleInputs ''12abc'')) exampleUtils
             = Inr (exampleArgs False 12)"
    by (simp add: getAndValidateArgs_def andThen_def staticCore_def exampleInputs_def numberInputs_def
        isNaN_def parseInt_more exampleArgs_def exampleUtils_def staticUtils_def)
  have p: "processIssues exampleUtils (exampleClient [[oldIssue]]) (exampleArgs False 12) 12 1 []
             = Some (Inr 8,
                [ListForRepo 1, CreateComment 1 ''This issue is stale'', AddLabels 1 [''stale''],
                 ListForRepo 2])"
    by code_simp
  from g p have "run (staticCore (exampleInputs ''12abc'')) exampleUtils (\<lambda>token. exampleClient [[oldIssue]])
        = Some (Succeeded,
                [ListForRepo 1, CreateComment 1 ''This issue is stale'', AddLabels 1 [''stale''],
                 ListForRepo 2])"
    by (simp add: run_def exampleArgs_def)
  with a b show ?thesis by blast
qed

text \<open>
  C10. When the inputs are supplied and the three numeric ones parse to integers
  \<open>x\<close>, \<open>y\<close> and \<open>z\<close>, of any sign, validation returns the configuration with these
  numbers. When moreover the budget \<open>z\<close> is zero or less and the first page is not
  empty, the run fetches that page and enters it: if its first item is not skipped,
  the run consists of the fetch and the round of that item, with whatever that round
  does, and then ends.
\<close>

theorem nonpositive_budget_is_accepted:
  assumes "getInput co ''repo-token'' True = Inr token"
    and "getInput co ''DRY_RUN'' False = Inr dryRun"
    and "getInput co ''stale-issue-message'' False = Inr issueMessage"
    and "getInput co ''stale-pr-message'' False = Inr prMessage"
    and "getInput co ''stale-issue-label'' True = Inr issueLabel"
    and "getInput co ''exempt-issue-label'' False = Inr exemptIssue"
    and "getInput co ''stale-pr-label'' True = Inr prLabel"
    and "getInput co ''exempt-pr-label'' False = Inr exemptPr"
    and "\<forall>required. getInput co ''days-before-stale'' required = Inr stale"
    and "\<forall>required. getInput co ''days-before-close'' required = Inr close"
    and "\<forall>required. getInput co ''operations-per-run'' required = Inr budget"
    and "parseInt stale = Some x" and "parseInt close = Some y" and "parseInt budget = Some z"
  shows "\<exists>args.
           getAndValidateArgs co u = Inr args
           \<and> args = \<lparr> repoToken = token, DRY_RUN = isTrue u dryRun,
                      staleIssueMessage = issueMessage, stalePrMessage = prMessage,
                      daysBeforeStale = x, daysBeforeClose = y,
                      staleIssueLabel = issueLabel, exemptIssueLabel = exemptIssue,
                      stalePrLabel = prLabel, exemptPrLabel = exemptPr,
                      operationsPerRun = z \<rparr>
           \<and> (z \<le> 0 \<longrightarrow>
                (\<forall>issue issues.
                   listForRepo (GitHub token) [] 1 = Inr (issue # issues) \<and> \<not> skipped u args issue \<longrightarrow>
                   run co u GitHub
                     = Some (case fst (processIssue u (GitHub token) args issue (z - 1) [ListForRepo 1]) of
                               Inl (Error message) \<Rightarrow> Failed message
                             | Inr l \<Rightarrow> Succeeded,
                             snd (processIssue u (GitHub token) args issue (z - 1) [ListForRepo 1]))))"
proof -
  let ?args = "\<lparr> repoToken = token, DRY_RUN = isTrue u dryRun,
                      staleIssueMessage = issueMessage, stalePrMessage = prMessage,
                      daysBeforeStale = x, daysBeforeClose = y,
                      staleIssueLabel = issueLabel, exemptIssueLabel = exemptIssue,
                      stalePrLabel = prLabel, exemptPrLabel = exemptPr,
                      operationsPerRun = z \<rparr>"
  from assms(9-14) have v: "validateNumberInputs co numberInputs = None"
    by (simp add: numberInputs_def isNaN_def)
  from assms v have g: "getAndValidateArgs co u = Inr ?args"
    by (simp add: getAndValidateArgs_def andThen_def)
  have "run co u GitHub
          = Some (case fst (processIssue u (GitHub token) ?args issue (z - 1) [ListForRepo 1]) of
                    Inl (Error message) \<Rightarrow> Failed message
                  | Inr l \<Rightarrow> Succeeded,
                  snd (processIssue u (GitHub token) ?args issue (z - 1) [ListForRepo 1]))"
    if "z \<le> 0" "listForRepo (GitHub token) [] 1 = Inr (issue # issues)" "\<not> skipped u ?args issue"
    for issue issues
  proof -
    from processIssues_nonpositive [OF that(1) that(2) that(3)]
    have "processIssues u (GitHub token) ?args z 1 []
           = Some (case fst (processIssue u (GitHub token) ?args issue (z - 1) [ListForRepo 1]) of
                     Inl e \<Rightarrow> Inl e
                   | Inr l \<Rightarrow> Inr 0,
                   snd (processIssue u (GitHub token) ?args issue (z - 1) [ListForRepo 1]))"
      by simp
    with g show ?thesis
      by (cases "fst (processIssue u (GitHub token) ?args issue (z - 1) [ListForRepo 1])")
         (auto simp add: run_def split: error.splits)
  qed
  with g show ?thesis by blast
qed

text \<open>
  The inputs of the examples with a budget of \<^verbatim>\<open>0\<close>: the old issue on the first page is
  commented and labeled. A budget of \<^verbatim>\<open>-5\<close> is accepted as well.
\<close>

theorem nonpositive_budget_is_accepted_witness:
  "parseInt ''0'' = Some 0
   \<and> getAndValidateArgs (staticCore (exampleInputs ''0'')) exampleUtils = Inr (exampleArgs False 0)
   \<and> run (staticCore (exampleInputs ''0'')) exampleUtils (\<lambda>token. exampleClient [[oldIssue]])
        = Some (Succeeded,
                [ListForRepo 1, CreateComment 1 ''This issue is stale'', AddLabels 1 [''stale'']])
   \<and> parseInt ''-5'' = Some (- 5)
   \<and> getAndValidateArgs (staticCore (exampleInputs ''-5'')) exampleUtils = Inr (exampleArgs False (- 5))"
proof -
  let ?u = exampleUtils and ?GitHub = "\<lambda>token :: string. exampleClient [[oldIssue]]"
  have i: "getInput (staticCore (exampleInputs b)) ''repo-token'' True = Inr ''token''"
    "getInput (staticCore (exampleInputs b)) ''DRY_RUN'' False = Inr []"
    "getInput (staticCore (exampleInputs b)) ''stale-issue-message'' False = Inr ''This issue is stale''"
    "getInput (staticCore (exampleInputs b)) ''stale-pr-message'' False = Inr ''This pull request is stale''"
    "getInput (staticCore (exampleInputs b)) ''stale-issue-label'' True = Inr ''stale''"
    "getInput (staticCore (exampleInputs b)) ''exempt-issue-label'' False = Inr ''pinned''"
    "getInput (staticCore (exampleInputs b)) ''stale-pr-label'' True = Inr ''stale''"
    "getInput (staticCore (exampleInputs b)) ''exempt-pr-label'' False = Inr ''pinned''"
    "\<forall>required. getInput (staticCore (exampleInputs b)) ''days-before-stale'' required = Inr ''30''"
    "\<forall>required. getInput (staticCore (exampleInputs b)) ''days-before-close'' required = Inr ''30''"
    "\<forall>required. getInput (staticCore (exampleInputs b)) ''operations-per-run'' required = Inr b"
    if "b \<noteq> []" for b
    using that by (simp_all add: staticCore_def exampleInputs_def)
  have ne: "''0'' \<noteq> []" "''-5'' \<noteq> []" by simp_all
  note i0 = i [OF ne(1)] and i5 = i [OF ne(2)]
  note p = parseInt_more(1) parseInt_more(1)
  have t: "isTrue ?u [] = False" by (simp add: eval_defs)
  from nonpositive_budget_is_accepted [OF i0 p parseInt_more(3), of ?u ?GitHub]
  have zero: "getAndValidateArgs (staticCore (exampleInputs ''0'')) ?u = Inr (exampleArgs False 0)"
    and first: "listForRepo (?GitHub ''token'') [] 1 = Inr (issue # issues)
                \<and> \<not> skipped ?u (exampleArgs False 0) issue \<longrightarrow>
                run (staticCore (exampleInputs ''0'')) ?u ?GitHub
                  = Some (case fst (processIssue ?u (?GitHub ''token'') (exampleArgs False 0) issue (0 - 1)
                                      [ListForRepo 1]) of
                            Inl (Error message) \<Rightarrow> Failed message
                          | Inr l \<Rightarrow> Succeeded,
                          snd (processIssue ?u (?GitHub ''token'') (exampleArgs False 0) issue (0 - 1)
                                 [ListForRepo 1]))" for issue issues
    by (simp_all add: t exampleArgs_def)
  have page: "listForRepo (?GitHub ''token'') [] 1 = Inr (oldIssue # [])"
    by (simp add: exampleClient_def staticClient_def)
  have ns: "\<not> skipped ?u (exampleArgs False 0) oldIssue"
    by (simp add: eval_defs)
  have round: "processIssue ?u (?GitHub ''token'') (exampleArgs False 0) oldIssue (0 - 1) [ListForRepo 1]
                 = (Inr (Return 0),
                    [ListForRepo 1, CreateComment 1 ''This issue is stale'', AddLabels 1 [''stale'']])"
    by (simp add: eval_defs processIssue_def branch_defs)
  from first [of oldIssue "[]"] page ns round
  have run: "run (staticCore (exampleInputs ''0'')) ?u ?GitHub
        = Some (Succeeded,
                [ListForRepo 1, CreateComment 1 ''This issue is stale'', AddLabels 1 [''stale'']])"
    by simp
  from nonpositive_budget_is_accepted [OF i5 p parseInt_more(4), of ?u ?GitHub]
  have minus: "getAndValidateArgs (staticCore (exampleInputs ''-5'')) ?u = Inr (exampleArgs False (- 5))"
    by (simp add: t exampleArgs_def)
  from zero run minus parseInt_more(3,4) show ?thesis by simp
qed

end
